theory Spec2Isabelle
  imports Main
begin

section \<open>Values exchanged over a connection\<close>

text \<open>
  The server file exists in two near-identical versions; the one modelled is the fully
  wired one, whose handlers call the persistence layer (the other has these calls
  commented out). The connection manager is the class \<open>WebSocketManager\<close>.

  A student identity is the \<open>studentId\<close> string of the source. A WebSocket object is
  shared by reference between the connection manager's map and the closure of its
  connection handler, so a socket is modelled by a handle (a number) and everything the
  object carries lives in the server state under that handle.
\<close>

type_synonym student_id = string

type_synonym socket = nat

datatype ready_state = CONNECTING | OPEN | CLOSING | CLOSED

text \<open>
  The JSON objects the server writes to a socket. Only the fields that tell the messages
  apart are kept; the human-readable \<open>message\<close> texts of the non-error messages are left
  out. The error texts are kept: they name the branch that produced the error.
\<close>

datatype out_msg =
    Error_msg string
  | Connected student_id bool
  | Checkin_on_track int
  | Checkin_pending int int
  | Intervention_assigned int string
  | Remedial_completed int

text \<open>
  An inbound frame after \<open>JSON.parse\<close>. A frame that does not parse (or parses to
  something that cannot be destructured) is \<open>Unparseable\<close>. The payload object may be
  absent; each of its fields may be absent (\<open>None\<close> is JavaScript's \<open>undefined\<close>). Fields
  that are present have the types of the repository's interfaces \<open>DailyCheckInData\<close>
  and \<open>RemedialCompletionData\<close>: a string token, integer scores, an integer
  intervention id.
\<close>

record payload =
  p_token :: "string option"
  p_quizScore :: "int option"
  p_focusMinutes :: "int option"
  p_interventionId :: "int option"

datatype frame = Unparseable | Frame string "payload option"

section \<open>Persistence: the tables of the migration\<close>

record daily_log =
  logId :: int
  log_studentId :: student_id
  focusMinutes :: int
  quizScore :: int
  status :: string
  timestamp :: nat

record intervention =
  interventionId :: int
  iv_studentId :: student_id
  taskAssigned :: bool
  assignedTasks :: "string option"
  completed :: bool
  createdAt :: nat
  updatedAt :: nat

text \<open>
  The two tables, in insertion order, and the next values of their \<open>SERIAL\<close> sequences.
\<close>

record database =
  dailyLogs :: "daily_log list"
  interventions :: "intervention list"
  log_seq :: int
  intervention_seq :: int

datatype db_error = DbFailure | RecordNotFound

text \<open>
  Every persistence call of the source can throw (lost connection, violated foreign key).
  Each operation takes a flag that says whether this call throws; a handler numbers the
  persistence calls it makes and reads the flags from a function of that number.
\<close>

type_synonym faults = "nat \<Rightarrow> bool"

definition dailyLog_create ::
  "bool \<Rightarrow> nat \<Rightarrow> student_id \<Rightarrow> int \<Rightarrow> int \<Rightarrow> string \<Rightarrow> database
    \<Rightarrow> db_error + (daily_log \<times> database)" where
  "dailyLog_create fault now sid fm qs st d =
     (if fault then Inl DbFailure
      else
        let row = \<lparr>logId = log_seq d, log_studentId = sid, focusMinutes = fm,
                   quizScore = qs, status = st, timestamp = now\<rparr>
        in Inr (row, d\<lparr>dailyLogs := dailyLogs d @ [row], log_seq := log_seq d + 1\<rparr>))"

definition intervention_create ::
  "bool \<Rightarrow> nat \<Rightarrow> student_id \<Rightarrow> bool \<Rightarrow> string option \<Rightarrow> bool \<Rightarrow> database
    \<Rightarrow> db_error + (intervention \<times> database)" where
  "intervention_create fault now sid ta tasks co d =
     (if fault then Inl DbFailure
      else
        let row = \<lparr>interventionId = intervention_seq d, iv_studentId = sid,
                   taskAssigned = ta, assignedTasks = tasks, completed = co,
                   createdAt = now, updatedAt = now\<rparr>
        in Inr (row, d\<lparr>interventions := interventions d @ [row],
                         intervention_seq := intervention_seq d + 1\<rparr>))"

text \<open>
  \<open>prisma.$transaction\<close> with a callback: the body runs on the database; when the body
  throws, or the commit does, the database is rolled back to what it was and the error
  is rethrown. (The rollback here also returns the sequences, which PostgreSQL leaves
  advanced; no property below depends on the value of an id after a rollback.)
\<close>

definition transaction ::
  "bool \<Rightarrow> (database \<Rightarrow> db_error + ('a \<times> database)) \<Rightarrow> database
    \<Rightarrow> (db_error + 'a) \<times> database" where
  "transaction commit_fault body d =
     (case body d of
        Inl e \<Rightarrow> (Inl e, d)
      | Inr (r, d') \<Rightarrow>
          if commit_fault then (Inl DbFailure, d) else (Inr r, d'))"

text \<open>
  \<open>prisma.intervention.update\<close> with \<open>where: { interventionId }\<close> and the data of the
  approval paths: it throws when no row has the id.
\<close>

definition intervention_update ::
  "bool \<Rightarrow> nat \<Rightarrow> int \<Rightarrow> string \<Rightarrow> database \<Rightarrow> db_error + database" where
  "intervention_update fault now iid tasks d =
     (if fault then Inl DbFailure
      else if \<not> list_ex (\<lambda>r. interventionId r = iid) (interventions d)
      then Inl RecordNotFound
      else Inr (d\<lparr>interventions :=
                    map (\<lambda>r. if interventionId r = iid
                              then r\<lparr>taskAssigned := True, assignedTasks := Some tasks,
                                      updatedAt := now\<rparr>
                              else r)
                        (interventions d)\<rparr>))"

text \<open>
  \<open>prisma.intervention.updateMany\<close> as \<open>handleRemedialCompletion\<close> calls it: the
  \<open>where\<close> clause is \<open>{ interventionId, studentId, taskAssigned: true }\<close>, the data is
  \<open>{ completed: true, updatedAt }\<close>, the result is the number of rows matched.
\<close>

definition completion_matches :: "int \<Rightarrow> student_id \<Rightarrow> intervention \<Rightarrow> bool" where
  "completion_matches iid sid r =
     (interventionId r = iid \<and> iv_studentId r = sid \<and> taskAssigned r = True)"

definition intervention_updateMany ::
  "bool \<Rightarrow> nat \<Rightarrow> int \<Rightarrow> student_id \<Rightarrow> database \<Rightarrow> db_error + (nat \<times> database)" where
  "intervention_updateMany fault now iid sid d =
     (if fault then Inl DbFailure
      else Inr (length (filter (completion_matches iid sid) (interventions d)),
                d\<lparr>interventions :=
                    map (\<lambda>r. if completion_matches iid sid r
                              then r\<lparr>completed := True, updatedAt := now\<rparr>
                              else r)
                        (interventions d)\<rparr>))"

text \<open>
  \<open>prisma.intervention.findMany\<close> of the pending-interventions route:
  \<open>where: { studentId, taskAssigned: true, completed: false }\<close>, ordered by
  \<open>createdAt\<close> descending.
\<close>

definition pending_where :: "student_id \<Rightarrow> intervention \<Rightarrow> bool" where
  "pending_where sid r = (iv_studentId r = sid \<and> taskAssigned r = True \<and> completed r = False)"

definition intervention_findMany_pending ::
  "bool \<Rightarrow> student_id \<Rightarrow> database \<Rightarrow> db_error + intervention list" where
  "intervention_findMany_pending fault sid d =
     (if fault then Inl DbFailure
      else Inr (rev (sort_key createdAt (filter (pending_where sid) (interventions d)))))"

section \<open>The server state\<close>

text \<open>
  A pending \<open>setTimeout\<close> of \<open>simulateN8nApproval\<close>: its delay and the arguments its
  callback closes over.
\<close>

record timer =
  t_delay :: nat
  t_studentId :: student_id
  t_interventionId :: int
  t_quizScore :: int
  t_focusMinutes :: int

text \<open>
  \<open>connections\<close> is the map of the \<open>WebSocketManager\<close> singleton. \<open>readyState\<close> is the
  field of each socket. \<open>studentIdVar\<close> is the variable \<open>let studentId: string | null\<close>
  that each connection's handlers close over (\<open>None\<close> is \<open>null\<close>). \<open>outbox\<close> lists, in
  order, every message handed to \<open>send\<close> of a socket. \<open>timers\<close> are the timeouts not
  yet fired.

  Each handler below is one function from state to state: it runs to completion, and
  the points where the source awaits the database are not points of interleaving here.
\<close>

record state =
  connections :: "student_id \<rightharpoonup> socket"
  readyState :: "socket \<Rightarrow> ready_state"
  studentIdVar :: "socket \<Rightarrow> string option"
  outbox :: "(socket \<times> out_msg) list"
  db :: database
  timers :: "timer list"

definition SIMULATION_MODE :: bool where
  "SIMULATION_MODE = True"

definition AUTO_APPROVE_DELAY :: nat where
  "AUTO_APPROVE_DELAY = 5000"

definition ws_send :: "socket \<Rightarrow> out_msg \<Rightarrow> state \<Rightarrow> state" where
  "ws_send ws m s = s\<lparr>outbox := outbox s @ [(ws, m)]\<rparr>"

definition ws_close :: "socket \<Rightarrow> state \<Rightarrow> state" where
  "ws_close ws s =
     (if readyState s ws = CLOSED then s
      else s\<lparr>readyState := (readyState s)(ws := CLOSING)\<rparr>)"

section \<open>WebSocketManager\<close>

definition addConnection :: "student_id \<Rightarrow> socket \<Rightarrow> state \<Rightarrow> state" where
  "addConnection sid ws s = s\<lparr>connections := (connections s)(sid \<mapsto> ws)\<rparr>"

definition removeConnection :: "student_id \<Rightarrow> state \<Rightarrow> state" where
  "removeConnection sid s = s\<lparr>connections := (connections s)(sid := None)\<rparr>"

definition sendToStudent :: "student_id \<Rightarrow> out_msg \<Rightarrow> state \<Rightarrow> bool \<times> state" where
  "sendToStudent sid m s =
     (case connections s sid of
        Some ws \<Rightarrow> if readyState s ws = OPEN then (True, ws_send ws m s) else (False, s)
      | None \<Rightarrow> (False, s))"

definition getConnection :: "student_id \<Rightarrow> state \<Rightarrow> socket option" where
  "getConnection sid s = connections s sid"

definition isConnected :: "student_id \<Rightarrow> state \<Rightarrow> bool" where
  "isConnected sid s =
     (case connections s sid of Some ws \<Rightarrow> readyState s ws = OPEN | None \<Rightarrow> False)"

text \<open>
  \<open>jwt.verify(token, JWT_SECRET)\<close> belongs to a library; it is a parameter here. It
  either throws (one of the errors below) or returns the decoded claims, of which the
  code reads \<open>studentId\<close> (absent when the token does not carry it). Called without a
  token it throws.
\<close>

datatype jwt_error = TokenMalformed | TokenExpired | SignatureMismatch

type_synonym jwt_verify = "string \<Rightarrow> jwt_error + string option"

definition verifyToken :: "jwt_verify \<Rightarrow> string option \<Rightarrow> string option" where
  "verifyToken jv token =
     (case token of
        None \<Rightarrow> None
      | Some t \<Rightarrow> (case jv t of Inl e \<Rightarrow> None | Inr decoded \<Rightarrow> decoded))"

section \<open>Check-in and approval\<close>

definition isOnTrack :: "int \<Rightarrow> int \<Rightarrow> bool" where
  "isOnTrack qs fm = (qs \<ge> 7 \<and> fm \<ge> 60)"

definition checkin_status :: "int \<Rightarrow> int \<Rightarrow> string" where
  "checkin_status qs fm = (if isOnTrack qs fm then ''On Track'' else ''Pending Mentor Review'')"

definition combined_tasks :: string where
  "combined_tasks = ''1. Complete chapter revision exercises\<newline>2. Practice focus techniques for 30 minutes\<newline>3. Retake the quiz (Target: 7+/10)''"

definition quiz_tasks :: string where
  "quiz_tasks = ''1. Review incorrect quiz answers\<newline>2. Complete practice problems\<newline>3. Retake the quiz (Target: 7+/10)''"

definition focus_tasks :: string where
  "focus_tasks = ''1. Implement Pomodoro technique\<newline>2. Track focus time daily\<newline>3. Reach 60+ minutes tomorrow''"

definition remedial_tasks :: "int \<Rightarrow> int \<Rightarrow> string" where
  "remedial_tasks qs fm =
     (if qs < 7 \<and> fm < 60 then combined_tasks
      else if qs < 7 then quiz_tasks
      else focus_tasks)"

text \<open>
  The body of the timeout's callback in \<open>simulateN8nApproval\<close>. An exception of the
  update is caught and logged, and nothing is sent.
\<close>

definition approval_callback ::
  "faults \<Rightarrow> nat \<Rightarrow> student_id \<Rightarrow> int \<Rightarrow> int \<Rightarrow> int \<Rightarrow> state \<Rightarrow> state" where
  "approval_callback fl now sid iid qs fm s =
     (let tasks = remedial_tasks qs fm in
      case intervention_update (fl 0) now iid tasks (db s) of
        Inl e \<Rightarrow> s
      | Inr d' \<Rightarrow> snd (sendToStudent sid (Intervention_assigned iid tasks) (s\<lparr>db := d'\<rparr>)))"

definition simulateN8nApproval :: "student_id \<Rightarrow> int \<Rightarrow> int \<Rightarrow> int \<Rightarrow> state \<Rightarrow> state" where
  "simulateN8nApproval sid iid qs fm s =
     s\<lparr>timers := timers s @
         [\<lparr>t_delay = AUTO_APPROVE_DELAY, t_studentId = sid, t_interventionId = iid,
           t_quizScore = qs, t_focusMinutes = fm\<rparr>]\<rparr>"

text \<open>
  The oldest pending timeout fires: all timeouts have the same delay, so they fire in
  the order they were set.
\<close>

definition fire_timer :: "faults \<Rightarrow> nat \<Rightarrow> state \<Rightarrow> state" where
  "fire_timer fl now s =
     (case timers s of
        [] \<Rightarrow> s
      | t # ts \<Rightarrow>
          approval_callback fl now (t_studentId t) (t_interventionId t) (t_quizScore t)
            (t_focusMinutes t) (s\<lparr>timers := ts\<rparr>))"

text \<open>
  The persistence calls of the pending branch are numbered 0 (the log), 1 (the
  intervention) and 2 (the commit); the call of the on-track branch is number 0. A
  payload that is absent makes the destructuring throw, which the handler's own
  \<open>catch\<close> answers.
\<close>

definition checkin_tx ::
  "faults \<Rightarrow> nat \<Rightarrow> student_id \<Rightarrow> int \<Rightarrow> int \<Rightarrow> string \<Rightarrow> database
    \<Rightarrow> db_error + ((daily_log \<times> intervention) \<times> database)" where
  "checkin_tx fl now sid fm qs st tx =
     (case dailyLog_create (fl 0) now sid fm qs st tx of
        Inl e \<Rightarrow> Inl e
      | Inr (dailyLog, tx1) \<Rightarrow>
          (case intervention_create (fl 1) now sid False None False tx1 of
             Inl e \<Rightarrow> Inl e
           | Inr (iv, tx2) \<Rightarrow> Inr ((dailyLog, iv), tx2)))"

definition handleDailyCheckin ::
  "faults \<Rightarrow> nat \<Rightarrow> student_id \<Rightarrow> payload option \<Rightarrow> socket \<Rightarrow> state \<Rightarrow> state" where
  "handleDailyCheckin fl now sid pl ws s =
     (case pl of
        None \<Rightarrow> ws_send ws (Error_msg ''Failed to process daily check-in'') s
      | Some p \<Rightarrow>
          (case (p_quizScore p, p_focusMinutes p) of
             (Some qs, Some fm) \<Rightarrow>
               if isOnTrack qs fm then
                 (case dailyLog_create (fl 0) now sid fm qs (checkin_status qs fm) (db s) of
                    Inl e \<Rightarrow> ws_send ws (Error_msg ''Failed to process daily check-in'') s
                  | Inr (dailyLog, d') \<Rightarrow>
                      ws_send ws (Checkin_on_track (logId dailyLog)) (s\<lparr>db := d'\<rparr>))
               else
                 (case transaction (fl 2)
                         (checkin_tx fl now sid fm qs (checkin_status qs fm)) (db s) of
                    (Inl e, d') \<Rightarrow>
                      ws_send ws (Error_msg ''Failed to process daily check-in'')
                        (s\<lparr>db := d'\<rparr>)
                  | (Inr (dailyLog, iv), d') \<Rightarrow>
                      (let s1 = ws_send ws
                                  (Checkin_pending (interventionId iv) (logId dailyLog))
                                  (s\<lparr>db := d'\<rparr>)
                       in if SIMULATION_MODE
                          then simulateN8nApproval sid (interventionId iv) qs fm s1
                          else s1))
           | _ \<Rightarrow> ws_send ws (Error_msg ''quizScore and focusMinutes are required'') s))"

text \<open>
  \<open>!interventionId\<close> holds for an absent id and for the number 0.
\<close>

definition handleRemedialCompletion ::
  "faults \<Rightarrow> nat \<Rightarrow> student_id \<Rightarrow> payload option \<Rightarrow> socket \<Rightarrow> state \<Rightarrow> state" where
  "handleRemedialCompletion fl now sid pl ws s =
     (case pl of
        None \<Rightarrow> ws_send ws (Error_msg ''Failed to mark remedial as completed'') s
      | Some p \<Rightarrow>
          (case p_interventionId p of
             None \<Rightarrow> ws_send ws (Error_msg ''interventionId is required'') s
           | Some iid \<Rightarrow>
               if iid = 0 then ws_send ws (Error_msg ''interventionId is required'') s
               else
                 (case intervention_updateMany (fl 0) now iid sid (db s) of
                    Inl e \<Rightarrow> ws_send ws (Error_msg ''Failed to mark remedial as completed'') s
                  | Inr (count, d') \<Rightarrow>
                      if count = 0
                      then ws_send ws (Error_msg ''Invalid intervention or not assigned'')
                             (s\<lparr>db := d'\<rparr>)
                      else ws_send ws (Remedial_completed iid) (s\<lparr>db := d'\<rparr>))))"

section \<open>The connection handlers\<close>

text \<open>
  \<open>wss.on("connection")\<close>: a new socket is open and its \<open>studentId\<close> variable is
  \<open>null\<close>.
\<close>

definition on_connection :: "socket \<Rightarrow> state \<Rightarrow> state" where
  "on_connection ws s =
     s\<lparr>readyState := (readyState s)(ws := OPEN), studentIdVar := (studentIdVar s)(ws := None)\<rparr>"

text \<open>
  \<open>!studentId\<close> holds for \<open>null\<close>, \<open>undefined\<close> and the empty string.
\<close>

definition falsy :: "string option \<Rightarrow> bool" where
  "falsy v = (case v of None \<Rightarrow> True | Some x \<Rightarrow> x = [])"

text \<open>
  \<open>ws.on("message")\<close>. In the \<open>connect\<close> case the result of \<open>verifyToken\<close> is assigned
  to the connection's variable before it is tested. Reading \<open>payload.token\<close> of an absent
  payload throws, which the outer \<open>catch\<close> answers.
\<close>

definition on_message ::
  "jwt_verify \<Rightarrow> faults \<Rightarrow> nat \<Rightarrow> socket \<Rightarrow> frame \<Rightarrow> state \<Rightarrow> state" where
  "on_message jv fl now ws fr s =
     (case fr of
        Unparseable \<Rightarrow> ws_send ws (Error_msg ''Invalid message format'') s
      | Frame type pl \<Rightarrow>
          if type = ''connect'' then
            (case pl of
               None \<Rightarrow> ws_send ws (Error_msg ''Invalid message format'') s
             | Some p \<Rightarrow>
                 (let v = verifyToken jv (p_token p);
                      s1 = s\<lparr>studentIdVar := (studentIdVar s)(ws := v)\<rparr>
                  in case v of
                       None \<Rightarrow> ws_close ws (ws_send ws (Error_msg ''Invalid token'') s1)
                     | Some sid \<Rightarrow>
                         if sid = []
                         then ws_close ws (ws_send ws (Error_msg ''Invalid token'') s1)
                         else ws_send ws (Connected sid SIMULATION_MODE)
                                (addConnection sid ws s1)))
          else if type = ''daily_checkin'' then
            (case studentIdVar s ws of
               None \<Rightarrow> ws_send ws (Error_msg ''Not authenticated'') s
             | Some sid \<Rightarrow>
                 if sid = [] then ws_send ws (Error_msg ''Not authenticated'') s
                 else handleDailyCheckin fl now sid pl ws s)
          else if type = ''remedial_completed'' then
            (case studentIdVar s ws of
               None \<Rightarrow> ws_send ws (Error_msg ''Not authenticated'') s
             | Some sid \<Rightarrow>
                 if sid = [] then ws_send ws (Error_msg ''Not authenticated'') s
                 else handleRemedialCompletion fl now sid pl ws s)
          else ws_send ws (Error_msg ''Unknown message type'') s)"

text \<open>
  \<open>ws.on("close")\<close>: the socket is closed, and the identity the variable holds at that
  moment, if any, is removed from the manager's map.
\<close>

definition on_close :: "socket \<Rightarrow> state \<Rightarrow> state" where
  "on_close ws s =
     (let s1 = s\<lparr>readyState := (readyState s)(ws := CLOSED)\<rparr>
      in case studentIdVar s ws of
           None \<Rightarrow> s1
         | Some sid \<Rightarrow> if sid = [] then s1 else removeConnection sid s1)"

section \<open>The pending-interventions route\<close>

fun split_on :: "char \<Rightarrow> string \<Rightarrow> string list" where
  "split_on c [] = [[]]"
| "split_on c (x # xs) =
     (if x = c then [] # split_on c xs
      else (case split_on c xs of [] \<Rightarrow> [[x]] | y # ys \<Rightarrow> (x # y) # ys))"

datatype http_response =
    Status nat string
  | Pending_interventions student_id "intervention list"

text \<open>
  \<open>authenticateToken\<close>: the token is the second space-separated piece of the
  \<open>authorization\<close> header; the response is 401 without one and 403 when
  \<open>jwt.verify\<close> reports an error.
\<close>

definition bearer_token :: "string option \<Rightarrow> string option" where
  "bearer_token authHeader =
     (case authHeader of
        None \<Rightarrow> None
      | Some h \<Rightarrow>
          if h = [] then Some []
          else (case split_on CHR '' '' h of
                  a # b # rest \<Rightarrow> Some b
                | _ \<Rightarrow> None))"

definition get_pending_interventions ::
  "jwt_verify \<Rightarrow> faults \<Rightarrow> string option \<Rightarrow> student_id \<Rightarrow> state \<Rightarrow> http_response" where
  "get_pending_interventions jv fl authHeader sid s =
     (case bearer_token authHeader of
        None \<Rightarrow> Status 401 ''Access token required''
      | Some token \<Rightarrow>
          if token = [] then Status 401 ''Access token required''
          else
            (case jv token of
               Inl e \<Rightarrow> Status 403 ''Invalid or expired token''
             | Inr user \<Rightarrow>
                 (case intervention_findMany_pending (fl 0) sid (db s) of
                    Inl e \<Rightarrow> Status 500 ''Failed to fetch pending interventions''
                  | Inr pendingInterventions \<Rightarrow>
                      Pending_interventions sid pendingInterventions)))"

section \<open>Example inputs\<close>

text \<open>
  A verifier that accepts two tokens, and the state of a server that has just started
  on an empty database.
\<close>

definition example_jwt :: jwt_verify where
  "example_jwt t =
     (if t = ''tokA'' then Inr (Some ''A'')
      else if t = ''tokB'' then Inr (Some ''B'')
      else if t = ''old'' then Inl TokenExpired
      else if t = ''forged'' then Inl SignatureMismatch
      else Inl TokenMalformed)"

definition no_faults :: faults where
  "no_faults k = False"

definition start_state :: state where
  "start_state =
     \<lparr>connections = Map.empty, readyState = (\<lambda>ws. CLOSED), studentIdVar = (\<lambda>ws. None),
      outbox = [],
      db = \<lparr>dailyLogs = [], interventions = [], log_seq = 1, intervention_seq = 1\<rparr>,
      timers = []\<rparr>"

definition connect_frame :: "string \<Rightarrow> frame" where
  "connect_frame t =
     Frame ''connect''
       (Some \<lparr>p_token = Some t, p_quizScore = None, p_focusMinutes = None,
              p_interventionId = None\<rparr>)"

definition checkin_payload :: "int \<Rightarrow> int \<Rightarrow> payload" where
  "checkin_payload qs fm =
     \<lparr>p_token = None, p_quizScore = Some qs, p_focusMinutes = Some fm,
      p_interventionId = None\<rparr>"

definition completion_payload :: "int \<Rightarrow> payload" where
  "completion_payload iid =
     \<lparr>p_token = None, p_quizScore = None, p_focusMinutes = None,
      p_interventionId = Some iid\<rparr>"

text \<open>
  Student B connects on socket 2, checks in twice below the thresholds, with (5, 70) at
  time 3 and with (8, 10) at time 4, and disconnects before either approval fires.
\<close>

definition offline_state :: state where
  "offline_state =
     on_close 2
       (on_message example_jwt no_faults 4 2
          (Frame ''daily_checkin'' (Some (checkin_payload 8 10)))
          (on_message example_jwt no_faults 3 2
             (Frame ''daily_checkin'' (Some (checkin_payload 5 70)))
             (on_message example_jwt no_faults 1 2 (connect_frame ''tokB'')
                (on_connection 2 start_state))))"

section \<open>The derived status of a check-in\<close>

text \<open>
  C3. For every pair of a quiz score and focus minutes, the derived status is
  \<open>On Track\<close> exactly when the quiz score is at least 7 and the focus minutes are at
  least 60, and \<open>Pending Mentor Review\<close> otherwise; it is the status that
  \<open>handleDailyCheckin\<close> stores in the log row it creates.
\<close>

theorem derived_status_threshold:
  "(checkin_status qs fm = ''On Track'') = (7 \<le> qs \<and> 60 \<le> fm) \<and>
   (checkin_status qs fm = ''Pending Mentor Review'') = (\<not> (7 \<le> qs \<and> 60 \<le> fm)) \<and>
   status (last (dailyLogs (db (handleDailyCheckin (\<lambda>k. False) now sid
      (Some (checkin_payload qs fm)) ws s)))) = checkin_status qs fm"
  by (simp add: checkin_status_def isOnTrack_def handleDailyCheckin_def checkin_payload_def
      dailyLog_create_def transaction_def checkin_tx_def intervention_create_def ws_send_def
      simulateN8nApproval_def SIMULATION_MODE_def Let_def)

text \<open>The three pairs of the specification: (7, 60), (6, 60) and (7, 59).\<close>

theorem derived_status_threshold_examples:
  "checkin_status 7 60 = ''On Track'' \<and> checkin_status 6 60 = ''Pending Mentor Review'' \<and>
   checkin_status 7 59 = ''Pending Mentor Review''"
  using derived_status_threshold [of 7 60] derived_status_threshold [of 6 60]
    derived_status_threshold [of 7 59]
  by simp

section \<open>Sending through the connection manager\<close>

text \<open>
  C5. \<open>sendToStudent\<close> returns true exactly when a socket is bound for the identity
  and that socket's \<open>readyState\<close> is \<open>OPEN\<close>; the message is then handed to that
  socket and nothing else changes. When no socket is bound it returns false and the state
  (the map, the sockets, the records) is what it was; so it is whenever the result is
  false.
\<close>

theorem sendToStudent_true_iff_bound_and_open:
  "fst (sendToStudent sid m s) =
     (\<exists>ws. connections s sid = Some ws \<and> readyState s ws = OPEN) \<and>
   (connections s sid = Some ws \<and> readyState s ws = OPEN \<longrightarrow>
      snd (sendToStudent sid m s) = s\<lparr>outbox := outbox s @ [(ws, m)]\<rparr>) \<and>
   (connections s sid = None \<longrightarrow> sendToStudent sid m s = (False, s)) \<and>
   (\<not> fst (sendToStudent sid m s) \<longrightarrow> snd (sendToStudent sid m s) = s)"
  by (simp add: sendToStudent_def ws_send_def split: option.splits)

text \<open>
  A send to the identity of an open, authenticated connection, and a send to an identity
  that nothing is bound for.
\<close>

theorem sendToStudent_true_iff_bound_and_open_witness:
  "fst (sendToStudent ''A'' (Error_msg ''x'')
          (on_message example_jwt no_faults 0 1 (connect_frame ''tokA'')
             (on_connection 1 start_state))) \<and>
   outbox (snd (sendToStudent ''A'' (Error_msg ''x'')
          (on_message example_jwt no_faults 0 1 (connect_frame ''tokA'')
             (on_connection 1 start_state)))) =
     [(1, Connected ''A'' True), (1, Error_msg ''x'')] \<and>
   sendToStudent ''B'' (Error_msg ''x'') start_state = (False, start_state)"
  using sendToStudent_true_iff_bound_and_open
     [of "''A''" "Error_msg ''x''"
         "on_message example_jwt no_faults 0 1 (connect_frame ''tokA'')
             (on_connection 1 start_state)" 1]
    sendToStudent_true_iff_bound_and_open [of "''B''" "Error_msg ''x''" start_state 0]
  by (simp add: on_message_def connect_frame_def verifyToken_def example_jwt_def
      on_connection_def start_state_def addConnection_def ws_send_def SIMULATION_MODE_def)

section \<open>The session protocol\<close>

text \<open>
  C7. A \<open>daily_checkin\<close> or \<open>remedial_completed\<close> message on a connection whose
  \<open>studentId\<close> variable is not set is answered by the error \<open>Not authenticated\<close> and
  nothing else: the variable, the map, the sockets, the records and the timers are
  unchanged, so the message is not processed. A message of any type other than the three
  known ones is answered by the error \<open>Unknown message type\<close> and nothing else: the
  socket keeps its state and the session stays as it was.
\<close>

theorem unauthenticated_or_unknown_message_only_errors:
  "(falsy (studentIdVar s ws) \<and> (ty = ''daily_checkin'' \<or> ty = ''remedial_completed'') \<longrightarrow>
      on_message jv fl now ws (Frame ty pl) s =
        s\<lparr>outbox := outbox s @ [(ws, Error_msg ''Not authenticated'')]\<rparr>) \<and>
   (ty \<noteq> ''connect'' \<and> ty \<noteq> ''daily_checkin'' \<and> ty \<noteq> ''remedial_completed'' \<longrightarrow>
      on_message jv fl now ws (Frame ty pl) s =
        s\<lparr>outbox := outbox s @ [(ws, Error_msg ''Unknown message type'')]\<rparr>)"
  by (auto simp add: on_message_def falsy_def ws_send_def split: option.splits)

text \<open>
  Both domain messages on a fresh connection, and an unknown message on an authenticated
  one, whose socket is still open afterwards.
\<close>

theorem unauthenticated_or_unknown_message_only_errors_witness:
  "on_message example_jwt no_faults 0 1 (Frame ''daily_checkin'' (Some (checkin_payload 5 40)))
      (on_connection 1 start_state) =
     (on_connection 1 start_state)\<lparr>outbox := [(1, Error_msg ''Not authenticated'')]\<rparr> \<and>
   on_message example_jwt no_faults 0 1 (Frame ''remedial_completed'' (Some (completion_payload 1)))
      (on_connection 1 start_state) =
     (on_connection 1 start_state)\<lparr>outbox := [(1, Error_msg ''Not authenticated'')]\<rparr> \<and>
   on_message example_jwt no_faults 0 1 (Frame ''ping'' None)
      (on_message example_jwt no_faults 0 1 (connect_frame ''tokA'')
             (on_connection 1 start_state)) =
     (on_message example_jwt no_faults 0 1 (connect_frame ''tokA'')
             (on_connection 1 start_state))
       \<lparr>outbox := [(1, Connected ''A'' True), (1, Error_msg ''Unknown message type'')]\<rparr> \<and>
   readyState (on_message example_jwt no_faults 0 1 (Frame ''ping'' None)
      (on_message example_jwt no_faults 0 1 (connect_frame ''tokA'')
             (on_connection 1 start_state))) 1 = OPEN"
  using unauthenticated_or_unknown_message_only_errors
     [of "on_connection 1 start_state" 1 "''daily_checkin''" example_jwt no_faults 0
         "Some (checkin_payload 5 40)"]
    unauthenticated_or_unknown_message_only_errors
     [of "on_connection 1 start_state" 1 "''remedial_completed''" example_jwt no_faults 0
         "Some (completion_payload 1)"]
    unauthenticated_or_unknown_message_only_errors
     [of "on_message example_jwt no_faults 0 1 (connect_frame ''tokA'')
             (on_connection 1 start_state)" 1 "''ping''" example_jwt no_faults 0 None]
  by (simp add: falsy_def on_connection_def start_state_def on_message_def connect_frame_def
      verifyToken_def example_jwt_def addConnection_def ws_send_def SIMULATION_MODE_def)

section \<open>Connecting\<close>

text \<open>
  C6. When \<open>jwt.verify\<close> throws for the token (it is malformed, expired or its
  signature does not match), or no token is given, \<open>verifyToken\<close> returns \<open>null\<close>
  and no exception leaves it. A \<open>connect\<close> message whose token \<open>verifyToken\<close> does
  not turn into an identity is answered by the error \<open>Invalid token\<close>, the socket is
  closed, and the manager's map is not touched: no identity is bound, neither by the
  message nor by the close event that follows; the records and timers are unchanged.
\<close>

theorem invalid_credential_closes_without_binding:
  "(jv t = Inl e \<longrightarrow> verifyToken jv (Some t) = None) \<and>
   verifyToken jv None = None \<and>
   (falsy (verifyToken jv (p_token p)) \<longrightarrow>
      (let s' = on_message jv fl now ws (Frame ''connect'' (Some p)) s in
         outbox s' = outbox s @ [(ws, Error_msg ''Invalid token'')] \<and>
         readyState s' ws \<noteq> OPEN \<and>
         falsy (studentIdVar s' ws) \<and>
         connections s' = connections s \<and> db s' = db s \<and> timers s' = timers s \<and>
         connections (on_close ws s') = connections s))"
  by (auto simp add: verifyToken_def on_message_def ws_send_def ws_close_def on_close_def
      falsy_def Let_def split: option.splits)

text \<open>
  An expired, a forged and a malformed token, and a connect message without a token, on
  a fresh connection.
\<close>

theorem invalid_credential_closes_without_binding_witness:
  "verifyToken example_jwt (Some ''old'') = None \<and>
   verifyToken example_jwt (Some ''forged'') = None \<and>
   verifyToken example_jwt (Some ''garbage'') = None \<and>
   outbox (on_message example_jwt no_faults 0 1 (connect_frame ''old'')
      (on_connection 1 start_state)) = [(1, Error_msg ''Invalid token'')] \<and>
   readyState (on_message example_jwt no_faults 0 1 (connect_frame ''old'')
      (on_connection 1 start_state)) 1 = CLOSING \<and>
   connections (on_message example_jwt no_faults 0 1 (connect_frame ''old'')
      (on_connection 1 start_state)) ''A'' = None \<and>
   outbox (on_message example_jwt no_faults 0 1 (Frame ''connect'' (Some (checkin_payload 5 40)))
      (on_connection 1 start_state)) = [(1, Error_msg ''Invalid token'')]"
  using invalid_credential_closes_without_binding
      [where jv = example_jwt and t = "''old''" and e = TokenExpired and fl = no_faults
         and now = 0 and ws = 1 and s = "on_connection 1 start_state"
         and p = "\<lparr>p_token = Some ''old'', p_quizScore = None, p_focusMinutes = None,
              p_interventionId = None\<rparr>"]
    invalid_credential_closes_without_binding
      [where jv = example_jwt and t = "''forged''" and e = SignatureMismatch and fl = no_faults
         and now = 0 and ws = 1 and s = "on_connection 1 start_state"
         and p = "checkin_payload 5 40"]
    invalid_credential_closes_without_binding
      [where jv = example_jwt and t = "''garbage''" and e = TokenMalformed and fl = no_faults
         and now = 0 and ws = 1 and s = "on_connection 1 start_state"
         and p = "checkin_payload 5 40"]
  by (simp add: example_jwt_def connect_frame_def on_connection_def start_state_def
      ws_close_def checkin_payload_def falsy_def verifyToken_def on_message_def ws_send_def
      Let_def)

text \<open>
  C10. A \<open>connect\<close> message on a connection that is already authenticated as \<open>a\<close> is
  accepted. With a valid token for another identity \<open>b\<close> the connection's variable
  becomes \<open>b\<close>, \<open>b\<close> is bound to the socket and a second \<open>connected\<close> message is sent,
  while the entry of \<open>a\<close> stays in the map, bound to this same socket. The close handler
  removes the entry of \<open>b\<close> only; the entry of \<open>a\<close> remains, pointing at the closed
  socket.
\<close>

theorem reconnect_rebinds_and_leaves_stale_entry:
  "jv ta = Inr (Some a) \<and> jv tb = Inr (Some b) \<and> a \<noteq> [] \<and> b \<noteq> [] \<and> a \<noteq> b \<longrightarrow>
     (let s1 = on_message jv fl now ws (Frame ''connect'' (Some (p\<lparr>p_token := Some ta\<rparr>))) s;
          s2 = on_message jv fl' now' ws (Frame ''connect'' (Some (p'\<lparr>p_token := Some tb\<rparr>))) s1;
          s3 = on_close ws s2
      in studentIdVar s1 ws = Some a \<and> connections s1 a = Some ws \<and>
         studentIdVar s2 ws = Some b \<and> connections s2 b = Some ws \<and>
         connections s2 a = Some ws \<and>
         outbox s2 = outbox s @ [(ws, Connected a SIMULATION_MODE),
                                 (ws, Connected b SIMULATION_MODE)] \<and>
         readyState s2 ws = readyState s ws \<and>
         connections s3 a = Some ws \<and> connections s3 b = None \<and>
         readyState s3 ws = CLOSED)"
  by (simp add: verifyToken_def on_message_def ws_send_def on_close_def addConnection_def
      removeConnection_def Let_def)

text \<open>A connection that authenticates as A, then as B, then closes.\<close>

theorem reconnect_rebinds_and_leaves_stale_entry_witness:
  "getConnection ''A''
     (on_close 1
        (on_message example_jwt no_faults 2 1 (connect_frame ''tokB'')
           (on_message example_jwt no_faults 1 1 (connect_frame ''tokA'')
              (on_connection 1 start_state)))) = Some 1 \<and>
   getConnection ''B''
     (on_close 1
        (on_message example_jwt no_faults 2 1 (connect_frame ''tokB'')
           (on_message example_jwt no_faults 1 1 (connect_frame ''tokA'')
              (on_connection 1 start_state)))) = None \<and>
   outbox
     (on_message example_jwt no_faults 2 1 (connect_frame ''tokB'')
        (on_message example_jwt no_faults 1 1 (connect_frame ''tokA'')
           (on_connection 1 start_state))) =
     [(1, Connected ''A'' True), (1, Connected ''B'' True)]"
  using reconnect_rebinds_and_leaves_stale_entry
     [of example_jwt "''tokA''" "''A''" "''tokB''" "''B''" no_faults 1 1
         "\<lparr>p_token = None, p_quizScore = None, p_focusMinutes = None,
             p_interventionId = None\<rparr>" "on_connection 1 start_state" no_faults 2
         "\<lparr>p_token = None, p_quizScore = None, p_focusMinutes = None,
             p_interventionId = None\<rparr>"]
  by (simp add: example_jwt_def connect_frame_def on_connection_def start_state_def
      getConnection_def SIMULATION_MODE_def Let_def)

section \<open>The registry: binding and unbinding\<close>

text \<open>
  C1, as the specification states it, fails on the code. Two connections authenticate as
  the same identity, one after the other; the map then holds the second socket. When the
  first connection closes, its close handler calls \<open>removeConnection\<close> with the
  identity, and the entry of the second connection, whose socket is still open, is gone.
\<close>

theorem stale_close_removes_newer_binding:
  "getConnection ''A''
     (on_message example_jwt no_faults 2 2 (connect_frame ''tokA'')
        (on_connection 2
           (on_message example_jwt no_faults 1 1 (connect_frame ''tokA'')
              (on_connection 1 start_state)))) = Some 2 \<and>
   readyState
     (on_close 1
        (on_message example_jwt no_faults 2 2 (connect_frame ''tokA'')
           (on_connection 2
              (on_message example_jwt no_faults 1 1 (connect_frame ''tokA'')
                 (on_connection 1 start_state))))) 2 = OPEN \<and>
   getConnection ''A''
     (on_close 1
        (on_message example_jwt no_faults 2 2 (connect_frame ''tokA'')
           (on_connection 2
              (on_message example_jwt no_faults 1 1 (connect_frame ''tokA'')
                 (on_connection 1 start_state))))) = None"
  by (simp add: getConnection_def on_close_def on_message_def on_connection_def
      connect_frame_def verifyToken_def example_jwt_def start_state_def addConnection_def
      removeConnection_def ws_send_def Let_def)

text \<open>
  C1, amended. Binding an identity twice leaves exactly the second socket reachable
  through \<open>getConnection\<close>. \<open>removeConnection\<close> takes the identity alone and deletes
  its entry whatever socket it holds, leaving the other identities' entries alone; the
  close handler of a connection deletes the entry of the identity its variable holds,
  whichever socket that entry refers to.
\<close>

theorem bind_replaces_and_unbind_deletes:
  "getConnection sid (addConnection sid c2 (addConnection sid c1 s)) = Some c2 \<and>
   getConnection sid (removeConnection sid s) = None \<and>
   (sid' \<noteq> sid \<longrightarrow> getConnection sid' (removeConnection sid s) = getConnection sid' s) \<and>
   (studentIdVar s ws = Some sid \<and> sid \<noteq> [] \<longrightarrow> getConnection sid (on_close ws s) = None)"
  by (simp add: getConnection_def addConnection_def removeConnection_def on_close_def Let_def)

text \<open>
  Two bindings of A, the removal of A, the removal of A beside an entry of B, and the
  close of the first of two connections of A.
\<close>

theorem bind_replaces_and_unbind_deletes_witness:
  "getConnection ''A'' (addConnection ''A'' 2 (addConnection ''A'' 1 start_state)) = Some 2 \<and>
   getConnection ''A''
     (removeConnection ''A'' (addConnection ''A'' 2 (addConnection ''A'' 1 start_state))) = None \<and>
   getConnection ''B''
     (removeConnection ''A'' (addConnection ''B'' 3 start_state)) = Some 3 \<and>
   getConnection ''A''
     (on_close 1
        (on_message example_jwt no_faults 2 2 (connect_frame ''tokA'')
           (on_connection 2
              (on_message example_jwt no_faults 1 1 (connect_frame ''tokA'')
                 (on_connection 1 start_state))))) = None"
  using bind_replaces_and_unbind_deletes [of "''A''" 2 1 start_state "''B''" 0]
    bind_replaces_and_unbind_deletes
      [of "''A''" 2 1 "addConnection ''A'' 2 (addConnection ''A'' 1 start_state)" "''B''" 0]
    bind_replaces_and_unbind_deletes [of "''A''" 2 1 "addConnection ''B'' 3 start_state" "''B''" 0]
    bind_replaces_and_unbind_deletes
      [of "''A''" 2 1 "on_message example_jwt no_faults 2 2 (connect_frame ''tokA'')
           (on_connection 2
              (on_message example_jwt no_faults 1 1 (connect_frame ''tokA'')
                 (on_connection 1 start_state)))" "''B''" 1]
  by (simp add: getConnection_def addConnection_def start_state_def on_message_def
      on_connection_def connect_frame_def verifyToken_def example_jwt_def ws_send_def Let_def)

section \<open>Reporting a remedial task as completed\<close>









section \<open>Recording a check-in\<close>

lemma checkin_tx_ok:
  "\<not> fl 0 \<Longrightarrow> \<not> fl 1 \<Longrightarrow>
   checkin_tx fl now sid fm qs st d =
     Inr ((\<lparr>logId = log_seq d, log_studentId = sid, focusMinutes = fm, quizScore = qs,
            status = st, timestamp = now\<rparr>,
           \<lparr>interventionId = intervention_seq d, iv_studentId = sid, taskAssigned = False,
            assignedTasks = None, completed = False, createdAt = now, updatedAt = now\<rparr>),
          d\<lparr>dailyLogs := dailyLogs d @
                [\<lparr>logId = log_seq d, log_studentId = sid, focusMinutes = fm, quizScore = qs,
                  status = st, timestamp = now\<rparr>],
            interventions := interventions d @
                [\<lparr>interventionId = intervention_seq d, iv_studentId = sid,
                  taskAssigned = False, assignedTasks = None, completed = False,
                  createdAt = now, updatedAt = now\<rparr>],
            log_seq := log_seq d + 1, intervention_seq := intervention_seq d + 1\<rparr>)"
  by (simp add: checkin_tx_def dailyLog_create_def intervention_create_def Let_def)

lemma transaction_tables_on_error:
  "transaction cf body d = (Inl e, d') \<Longrightarrow>
   dailyLogs d' = dailyLogs d \<and> interventions d' = interventions d"
  by (auto simp add: transaction_def split: sum.splits prod.splits if_splits)

lemma pending_checkin_failure:
  assumes "p_quizScore p = Some qs" "p_focusMinutes p = Some fm" "\<not> isOnTrack qs fm"
    and "fl 0 \<or> fl 1 \<or> fl 2"
  shows "dailyLogs (db (handleDailyCheckin fl now sid (Some p) ws s)) = dailyLogs (db s) \<and>
         interventions (db (handleDailyCheckin fl now sid (Some p) ws s)) =
           interventions (db s) \<and>
         outbox (handleDailyCheckin fl now sid (Some p) ws s) =
           outbox s @ [(ws, Error_msg ''Failed to process daily check-in'')] \<and>
         timers (handleDailyCheckin fl now sid (Some p) ws s) = timers s"
proof -
  have "\<exists>e d'. transaction (fl 2) (checkin_tx fl now sid fm qs (checkin_status qs fm))
      (db s) = (Inl e, d')"
  proof (cases "fl 0")
    case True
    then show ?thesis
      by (simp add: transaction_def checkin_tx_def dailyLog_create_def)
  next
    case f0: False
    show ?thesis
    proof (cases "fl 1")
      case True
      with f0 show ?thesis
        by (simp add: transaction_def checkin_tx_def dailyLog_create_def
            intervention_create_def Let_def)
    next
      case False
      with f0 assms(4) have "fl 2" by simp
      with f0 False show ?thesis
        by (simp add: transaction_def checkin_tx_ok)
    qed
  qed
  then obtain e d' where tx: "transaction (fl 2)
      (checkin_tx fl now sid fm qs (checkin_status qs fm)) (db s) = (Inl e, d')"
    by blast
  from transaction_tables_on_error [OF tx] tx assms(1-3)
  show ?thesis
    by (simp add: handleDailyCheckin_def ws_send_def)
qed

lemma pending_checkin_success:
  assumes "p_quizScore p = Some qs" "p_focusMinutes p = Some fm" "\<not> isOnTrack qs fm"
    and "\<not> fl 0" "\<not> fl 1" "\<not> fl 2"
  shows "handleDailyCheckin fl now sid (Some p) ws s =
     s\<lparr>db := (db s)\<lparr>dailyLogs := dailyLogs (db s) @
                [\<lparr>logId = log_seq (db s), log_studentId = sid, focusMinutes = fm,
                  quizScore = qs, status = ''Pending Mentor Review'', timestamp = now\<rparr>],
            interventions := interventions (db s) @
                [\<lparr>interventionId = intervention_seq (db s), iv_studentId = sid,
                  taskAssigned = False, assignedTasks = None, completed = False,
                  createdAt = now, updatedAt = now\<rparr>],
            log_seq := log_seq (db s) + 1,
            intervention_seq := intervention_seq (db s) + 1\<rparr>,
       outbox := outbox s @
         [(ws, Checkin_pending (intervention_seq (db s)) (log_seq (db s)))],
       timers := timers s @
         [\<lparr>t_delay = AUTO_APPROVE_DELAY, t_studentId = sid,
           t_interventionId = intervention_seq (db s), t_quizScore = qs,
           t_focusMinutes = fm\<rparr>]\<rparr>"
  using assms
  by (simp add: handleDailyCheckin_def transaction_def checkin_tx_ok checkin_status_def
      ws_send_def SIMULATION_MODE_def simulateN8nApproval_def)

lemma on_track_checkin:
  assumes "p_quizScore p = Some qs" "p_focusMinutes p = Some fm" "isOnTrack qs fm"
  shows "handleDailyCheckin fl now sid (Some p) ws s =
     (if fl 0 then s\<lparr>outbox := outbox s @
                       [(ws, Error_msg ''Failed to process daily check-in'')]\<rparr>
      else s\<lparr>db := (db s)\<lparr>dailyLogs := dailyLogs (db s) @
                [\<lparr>logId = log_seq (db s), log_studentId = sid, focusMinutes = fm,
                  quizScore = qs, status = ''On Track'', timestamp = now\<rparr>],
                log_seq := log_seq (db s) + 1\<rparr>,
             outbox := outbox s @ [(ws, Checkin_on_track (log_seq (db s)))]\<rparr>)"
  using assms
  by (simp add: handleDailyCheckin_def dailyLog_create_def checkin_status_def ws_send_def
      Let_def)

text \<open>
  C4. A check-in below the thresholds creates the log row and the intervention row (with
  \<open>taskAssigned = false\<close>, \<open>completed = false\<close>, no tasks) for the same identity
  inside one transaction: when the three persistence steps succeed both tables gain
  exactly one row and the answer is \<open>Pending Mentor Review\<close> with the id of the new
  intervention; when any step fails, also the second after the first has succeeded, neither
  table changes and the answer is an error. A check-in that is on track creates exactly
  one log row (none when the insert fails) and never an intervention row.
\<close>

theorem checkin_creates_records_atomically:
  "p_quizScore p = Some qs \<and> p_focusMinutes p = Some fm \<longrightarrow>
     (let s' = handleDailyCheckin fl now sid (Some p) ws s in
      if isOnTrack qs fm then
        interventions (db s') = interventions (db s) \<and>
        (if fl 0
         then dailyLogs (db s') = dailyLogs (db s) \<and>
              outbox s' = outbox s @ [(ws, Error_msg ''Failed to process daily check-in'')]
         else (\<exists>lg. dailyLogs (db s') = dailyLogs (db s) @ [lg] \<and> log_studentId lg = sid \<and>
                 quizScore lg = qs \<and> focusMinutes lg = fm \<and>
                 outbox s' = outbox s @ [(ws, Checkin_on_track (logId lg))]))
      else
        (if fl 0 \<or> fl 1 \<or> fl 2
         then dailyLogs (db s') = dailyLogs (db s) \<and>
              interventions (db s') = interventions (db s) \<and>
              outbox s' = outbox s @ [(ws, Error_msg ''Failed to process daily check-in'')]
         else (\<exists>lg iv. dailyLogs (db s') = dailyLogs (db s) @ [lg] \<and>
                 interventions (db s') = interventions (db s) @ [iv] \<and>
                 log_studentId lg = sid \<and> iv_studentId iv = sid \<and>
                 quizScore lg = qs \<and> focusMinutes lg = fm \<and>
                 taskAssigned iv = False \<and> completed iv = False \<and>
                 assignedTasks iv = None \<and>
                 outbox s' = outbox s @
                   [(ws, Checkin_pending (interventionId iv) (logId lg))])))"
proof (intro impI, elim conjE)
  assume q: "p_quizScore p = Some qs" and f: "p_focusMinutes p = Some fm"
  show "let s' = handleDailyCheckin fl now sid (Some p) ws s in
      if isOnTrack qs fm then
        interventions (db s') = interventions (db s) \<and>
        (if fl 0
         then dailyLogs (db s') = dailyLogs (db s) \<and>
              outbox s' = outbox s @ [(ws, Error_msg ''Failed to process daily check-in'')]
         else (\<exists>lg. dailyLogs (db s') = dailyLogs (db s) @ [lg] \<and> log_studentId lg = sid \<and>
                 quizScore lg = qs \<and> focusMinutes lg = fm \<and>
                 outbox s' = outbox s @ [(ws, Checkin_on_track (logId lg))]))
      else
        (if fl 0 \<or> fl 1 \<or> fl 2
         then dailyLogs (db s') = dailyLogs (db s) \<and>
              interventions (db s') = interventions (db s) \<and>
              outbox s' = outbox s @ [(ws, Error_msg ''Failed to process daily check-in'')]
         else (\<exists>lg iv. dailyLogs (db s') = dailyLogs (db s) @ [lg] \<and>
                 interventions (db s') = interventions (db s) @ [iv] \<and>
                 log_studentId lg = sid \<and> iv_studentId iv = sid \<and>
                 quizScore lg = qs \<and> focusMinutes lg = fm \<and>
                 taskAssigned iv = False \<and> completed iv = False \<and>
                 assignedTasks iv = None \<and>
                 outbox s' = outbox s @
                   [(ws, Checkin_pending (interventionId iv) (logId lg))]))"
  proof (cases "isOnTrack qs fm")
    case True
    show ?thesis
      unfolding Let_def on_track_checkin [OF q f True]
      using True by simp
  next
    case off: False
    show ?thesis
    proof (cases "fl 0 \<or> fl 1 \<or> fl 2")
      case True
      from pending_checkin_failure [OF q f off True] off True
      show ?thesis by (simp add: Let_def)
    next
      case False
      then have "\<not> fl 0" "\<not> fl 1" "\<not> fl 2" by simp_all
      from pending_checkin_success [OF q f off this] off False
      show ?thesis by (simp add: Let_def)
    qed
  qed
qed

text \<open>
  The check-in (5, 40) with a working database, the same check-in when the insert of the
  intervention fails, and the check-in (8, 70).
\<close>

theorem checkin_creates_records_atomically_witness:
  "map interventionId (interventions (db
      (handleDailyCheckin no_faults 3 ''A'' (Some (checkin_payload 5 40)) 1 start_state))) = [1] \<and>
   map logId (dailyLogs (db
      (handleDailyCheckin no_faults 3 ''A'' (Some (checkin_payload 5 40)) 1 start_state))) = [1] \<and>
   outbox (handleDailyCheckin no_faults 3 ''A'' (Some (checkin_payload 5 40)) 1 start_state) =
     [(1, Checkin_pending 1 1)] \<and>
   dailyLogs (db
      (handleDailyCheckin (\<lambda>k. k = 1) 3 ''A'' (Some (checkin_payload 5 40)) 1 start_state)) = [] \<and>
   interventions (db
      (handleDailyCheckin (\<lambda>k. k = 1) 3 ''A'' (Some (checkin_payload 5 40)) 1 start_state)) = [] \<and>
   outbox
      (handleDailyCheckin (\<lambda>k. k = 1) 3 ''A'' (Some (checkin_payload 5 40)) 1 start_state) =
     [(1, Error_msg ''Failed to process daily check-in'')] \<and>
   map logId (dailyLogs (db
      (handleDailyCheckin no_faults 3 ''A'' (Some (checkin_payload 8 70)) 1 start_state))) = [1] \<and>
   interventions (db
      (handleDailyCheckin no_faults 3 ''A'' (Some (checkin_payload 8 70)) 1 start_state)) = [] \<and>
   outbox (handleDailyCheckin no_faults 3 ''A'' (Some (checkin_payload 8 70)) 1 start_state) =
     [(1, Checkin_on_track 1)]"
  using checkin_creates_records_atomically
      [where p = "checkin_payload 5 40" and qs = 5 and fm = 40 and fl = no_faults and now = 3
         and sid = "''A''" and ws = 1 and s = start_state]
    checkin_creates_records_atomically
      [where p = "checkin_payload 5 40" and qs = 5 and fm = 40 and fl = "\<lambda>k. k = 1" and now = 3
         and sid = "''A''" and ws = 1 and s = start_state]
    checkin_creates_records_atomically
      [where p = "checkin_payload 8 70" and qs = 8 and fm = 70 and fl = no_faults and now = 3
         and sid = "''A''" and ws = 1 and s = start_state]
  by (simp add: handleDailyCheckin_def checkin_payload_def isOnTrack_def checkin_status_def
      transaction_def checkin_tx_def dailyLog_create_def intervention_create_def
      no_faults_def start_state_def ws_send_def SIMULATION_MODE_def simulateN8nApproval_def
      Let_def)

section \<open>The simulated approval\<close>

lemma task_texts_distinct:
  "combined_tasks \<noteq> quiz_tasks \<and> combined_tasks \<noteq> focus_tasks \<and> quiz_tasks \<noteq> focus_tasks"
  by (simp add: combined_tasks_def quiz_tasks_def focus_tasks_def)

lemma approval_callback_found:
  assumes "\<not> fl 0" "r \<in> set (interventions (db s))" "interventionId r = iid"
  shows "approval_callback fl now sid iid qs fm s =
     snd (sendToStudent sid (Intervention_assigned iid (remedial_tasks qs fm))
       (s\<lparr>db := (db s)\<lparr>interventions :=
            map (\<lambda>r. if interventionId r = iid
                      then r\<lparr>taskAssigned := True,
                              assignedTasks := Some (remedial_tasks qs fm),
                              updatedAt := now\<rparr>
                      else r)
              (interventions (db s))\<rparr>\<rparr>))"
proof -
  have "list_ex (\<lambda>r. interventionId r = iid) (interventions (db s))"
    using assms(2,3) by (auto simp add: list_ex_iff)
  then show ?thesis
    using assms(1) by (simp add: approval_callback_def intervention_update_def Let_def)
qed

lemma sendToStudent_db: "db (snd (sendToStudent sid m s)) = db s"
  by (simp add: sendToStudent_def ws_send_def split: option.splits)

lemma sendToStudent_outbox:
  "outbox (snd (sendToStudent sid m s)) =
     (if isConnected sid s then outbox s @ [(the (connections s sid), m)] else outbox s)"
  by (simp add: sendToStudent_def isConnected_def ws_send_def split: option.splits)

lemma isConnected_db_update: "isConnected sid (s\<lparr>db := d\<rparr>) = isConnected sid s"
  by (simp add: isConnected_def split: option.splits)

text \<open>
  C8. In simulation mode the approval is a timeout of the fixed delay of 5000 ms. Its
  callback derives the task text from the two scores by a three-way rule: both below
  their thresholds give the combined text, only the quiz score below 7 gives the quiz
  text, only the focus minutes below 60 give the focus text, and the three texts differ.
  When the intervention row exists and the update does not fail, the row gets
  \<open>taskAssigned = true\<close> and that text, and an \<open>intervention_assigned\<close> message
  with the id and the text is passed to \<open>sendToStudent\<close>, which hands it to the
  student's socket when one is bound and open.
\<close>

theorem simulated_approval_assigns_three_way_task:
  "(qs < 7 \<and> fm < 60 \<longrightarrow> remedial_tasks qs fm = combined_tasks) \<and>
   (qs < 7 \<and> 60 \<le> fm \<longrightarrow> remedial_tasks qs fm = quiz_tasks) \<and>
   (7 \<le> qs \<and> fm < 60 \<longrightarrow> remedial_tasks qs fm = focus_tasks) \<and>
   combined_tasks \<noteq> quiz_tasks \<and> combined_tasks \<noteq> focus_tasks \<and> quiz_tasks \<noteq> focus_tasks \<and>
   timers (simulateN8nApproval sid iid qs fm s) =
     timers s @ [\<lparr>t_delay = 5000, t_studentId = sid, t_interventionId = iid,
                  t_quizScore = qs, t_focusMinutes = fm\<rparr>] \<and>
   (timers s = [] \<longrightarrow>
      fire_timer fl now (simulateN8nApproval sid iid qs fm s) =
        approval_callback fl now sid iid qs fm s) \<and>
   (\<not> fl 0 \<and> r \<in> set (interventions (db s)) \<and> interventionId r = iid \<longrightarrow>
      interventions (db (approval_callback fl now sid iid qs fm s)) =
        map (\<lambda>r. if interventionId r = iid
                  then r\<lparr>taskAssigned := True, assignedTasks := Some (remedial_tasks qs fm),
                          updatedAt := now\<rparr>
                  else r)
          (interventions (db s)) \<and>
      outbox (approval_callback fl now sid iid qs fm s) =
        (if isConnected sid s
         then outbox s @ [(the (connections s sid),
                           Intervention_assigned iid (remedial_tasks qs fm))]
         else outbox s))"
proof -
  have rule: "(qs < 7 \<and> fm < 60 \<longrightarrow> remedial_tasks qs fm = combined_tasks) \<and>
   (qs < 7 \<and> 60 \<le> fm \<longrightarrow> remedial_tasks qs fm = quiz_tasks) \<and>
   (7 \<le> qs \<and> fm < 60 \<longrightarrow> remedial_tasks qs fm = focus_tasks)"
    by (simp add: remedial_tasks_def)
  have sched: "timers (simulateN8nApproval sid iid qs fm s) =
     timers s @ [\<lparr>t_delay = 5000, t_studentId = sid, t_interventionId = iid,
                  t_quizScore = qs, t_focusMinutes = fm\<rparr>]"
    by (simp add: simulateN8nApproval_def AUTO_APPROVE_DELAY_def)
  have fire: "timers s = [] \<longrightarrow>
      fire_timer fl now (simulateN8nApproval sid iid qs fm s) =
        approval_callback fl now sid iid qs fm s"
  proof
    assume e: "timers s = []"
    then have same: "s\<lparr>timers := []\<rparr> = s" by simp
    show "fire_timer fl now (simulateN8nApproval sid iid qs fm s) =
        approval_callback fl now sid iid qs fm s"
      by (simp add: fire_timer_def simulateN8nApproval_def e same)
  qed
  have cb: "\<not> fl 0 \<and> r \<in> set (interventions (db s)) \<and> interventionId r = iid \<longrightarrow>
      interventions (db (approval_callback fl now sid iid qs fm s)) =
        map (\<lambda>r. if interventionId r = iid
                  then r\<lparr>taskAssigned := True, assignedTasks := Some (remedial_tasks qs fm),
                          updatedAt := now\<rparr>
                  else r)
          (interventions (db s)) \<and>
      outbox (approval_callback fl now sid iid qs fm s) =
        (if isConnected sid s
         then outbox s @ [(the (connections s sid),
                           Intervention_assigned iid (remedial_tasks qs fm))]
         else outbox s)"
    by (simp add: approval_callback_found [of fl r s iid now sid qs fm] sendToStudent_db
        sendToStudent_outbox isConnected_db_update)
  from rule sched fire cb task_texts_distinct show ?thesis
    by blast
qed

text \<open>
  The three cases of the rule at (5, 40), (5, 70) and (8, 40), and the run of a student
  who connects, checks in with (5, 40) and stays connected until the timeout fires.
\<close>

theorem simulated_approval_assigns_three_way_task_witness:
  "remedial_tasks 5 40 = combined_tasks \<and> remedial_tasks 5 70 = quiz_tasks \<and>
   remedial_tasks 8 40 = focus_tasks \<and>
   map t_delay (timers
      (on_message example_jwt no_faults 3 1
         (Frame ''daily_checkin'' (Some (checkin_payload 5 40)))
         (on_message example_jwt no_faults 1 1 (connect_frame ''tokA'')
            (on_connection 1 start_state)))) = [5000] \<and>
   map (\<lambda>r. (interventionId r, taskAssigned r, assignedTasks r, completed r))
     (interventions (db
        (fire_timer no_faults 7
           (on_message example_jwt no_faults 3 1
              (Frame ''daily_checkin'' (Some (checkin_payload 5 40)))
              (on_message example_jwt no_faults 1 1 (connect_frame ''tokA'')
                 (on_connection 1 start_state)))))) =
     [(1, True, Some combined_tasks, False)] \<and>
   outbox
     (fire_timer no_faults 7
        (on_message example_jwt no_faults 3 1
           (Frame ''daily_checkin'' (Some (checkin_payload 5 40)))
           (on_message example_jwt no_faults 1 1 (connect_frame ''tokA'')
              (on_connection 1 start_state)))) =
     [(1, Connected ''A'' True), (1, Checkin_pending 1 1),
      (1, Intervention_assigned 1 combined_tasks)]"
  using simulated_approval_assigns_three_way_task
     [where qs = 5 and fm = 40 and sid = "''A''" and iid = 1 and fl = no_faults and now = 7
        and s = "ws_send 1 (Checkin_pending 1 1)
                  ((on_message example_jwt no_faults 1 1 (connect_frame ''tokA'')
                      (on_connection 1 start_state))
                   \<lparr>db := \<lparr>dailyLogs =
                        [\<lparr>logId = 1, log_studentId = ''A'', focusMinutes = 40, quizScore = 5,
                          status = ''Pending Mentor Review'', timestamp = 3\<rparr>],
                      interventions =
                        [\<lparr>interventionId = 1, iv_studentId = ''A'', taskAssigned = False,
                          assignedTasks = None, completed = False, createdAt = 3,
                          updatedAt = 3\<rparr>],
                      log_seq = 2, intervention_seq = 2\<rparr>\<rparr>)"
        and r = "\<lparr>interventionId = 1, iv_studentId = ''A'', taskAssigned = False,
                   assignedTasks = None, completed = False, createdAt = 3, updatedAt = 3\<rparr>"]
    simulated_approval_assigns_three_way_task
     [where qs = 5 and fm = 70 and sid = "''A''" and iid = 1 and fl = no_faults and now = 7
        and s = start_state
        and r = "\<lparr>interventionId = 1, iv_studentId = ''A'', taskAssigned = False,
                   assignedTasks = None, completed = False, createdAt = 3, updatedAt = 3\<rparr>"]
    simulated_approval_assigns_three_way_task
     [where qs = 8 and fm = 40 and sid = "''A''" and iid = 1 and fl = no_faults and now = 7
        and s = start_state
        and r = "\<lparr>interventionId = 1, iv_studentId = ''A'', taskAssigned = False,
                   assignedTasks = None, completed = False, createdAt = 3, updatedAt = 3\<rparr>"]
  by (simp add: on_message_def on_connection_def
      connect_frame_def verifyToken_def example_jwt_def start_state_def addConnection_def
      ws_send_def Let_def handleDailyCheckin_def
      checkin_payload_def isOnTrack_def checkin_status_def
      transaction_def checkin_tx_def dailyLog_create_def intervention_create_def
      no_faults_def SIMULATION_MODE_def simulateN8nApproval_def fire_timer_def
      approval_callback_def intervention_update_def sendToStudent_def remedial_tasks_def
      AUTO_APPROVE_DELAY_def isConnected_def)

section \<open>Delivery to a student who is offline\<close>

lemma sendToStudent_offline:
  "\<not> isConnected sid s \<Longrightarrow> sendToStudent sid m s = (False, s)"
  by (auto simp add: sendToStudent_def isConnected_def split: option.splits)

lemma approval_callback_offline:
  assumes "\<not> fl 0" "r \<in> set (interventions (db s))" "interventionId r = iid"
    and "\<not> isConnected sid s"
  shows "approval_callback fl now sid iid qs fm s =
     s\<lparr>db := (db s)\<lparr>interventions :=
            map (\<lambda>r. if interventionId r = iid
                      then r\<lparr>taskAssigned := True,
                              assignedTasks := Some (remedial_tasks qs fm),
                              updatedAt := now\<rparr>
                      else r)
              (interventions (db s))\<rparr>\<rparr>"
  using assms(4)
  by (simp add: approval_callback_found [of fl r s iid now sid qs fm, OF assms(1-3)]
      sendToStudent_offline isConnected_db_update)

lemma get_pending_ok:
  assumes "bearer_token hdr = Some tok" "tok \<noteq> []" "jv tok = Inr u" "\<not> fl 0"
  shows "get_pending_interventions jv fl hdr sid s =
     Pending_interventions sid
       (rev (sort_key createdAt (filter (pending_where sid) (interventions (db s)))))"
  using assms
  by (simp add: get_pending_interventions_def intervention_findMany_pending_def)

text \<open>
  C9. When the approval fires for an intervention of a student who is not connected,
  \<open>sendToStudent\<close> returns false; nothing is written to any socket and no timer is
  set, so the event is neither queued nor retried. The row keeps \<open>taskAssigned = true\<close>
  with the task text, and \<open>completed = false\<close>. A later authenticated request to the
  pending-interventions route for that identity answers with a list that contains this
  intervention, holds only assigned, uncompleted rows of the identity, and is ordered by
  \<open>createdAt\<close>, most recent first.
\<close>

theorem offline_assignment_kept_for_pull:
  "\<not> fl 0 \<and> r \<in> set (interventions (db s)) \<and> interventionId r = iid \<and>
   iv_studentId r = sid \<and> completed r = False \<and> \<not> isConnected sid s \<longrightarrow>
     (let s' = approval_callback fl now sid iid qs fm s in
        fst (sendToStudent sid (Intervention_assigned iid (remedial_tasks qs fm))
               (s\<lparr>db := db s'\<rparr>)) = False \<and>
        outbox s' = outbox s \<and> timers s' = timers s \<and> connections s' = connections s \<and>
        (\<exists>r' \<in> set (interventions (db s')).
            interventionId r' = iid \<and> iv_studentId r' = sid \<and> taskAssigned r' = True \<and>
            completed r' = False \<and> assignedTasks r' = Some (remedial_tasks qs fm)) \<and>
        (bearer_token hdr = Some tok \<and> tok \<noteq> [] \<and> jv tok = Inr u \<and> \<not> fl' 0 \<longrightarrow>
           (\<exists>rows. get_pending_interventions jv fl' hdr sid s' =
                     Pending_interventions sid rows \<and>
              (\<exists>r' \<in> set rows.
                  interventionId r' = iid \<and> taskAssigned r' = True \<and> completed r' = False \<and>
                  assignedTasks r' = Some (remedial_tasks qs fm)) \<and>
              (\<forall>x \<in> set rows. iv_studentId x = sid \<and> taskAssigned x = True \<and>
                  completed x = False) \<and>
              sorted (rev (map createdAt rows)))))"
proof (intro impI, elim conjE)
  assume fl: "\<not> fl 0" and r: "r \<in> set (interventions (db s))" and id: "interventionId r = iid"
    and own: "iv_studentId r = sid" and nc: "completed r = False"
    and off: "\<not> isConnected sid s"
  define upd where "upd = (\<lambda>r::intervention. if interventionId r = iid
                      then r\<lparr>taskAssigned := True,
                              assignedTasks := Some (remedial_tasks qs fm),
                              updatedAt := now\<rparr>
                      else r)"
  define s' where "s' = approval_callback fl now sid iid qs fm s"
  have s': "s' = s\<lparr>db := (db s)\<lparr>interventions := map upd (interventions (db s))\<rparr>\<rparr>"
    unfolding s'_def upd_def by (rule approval_callback_offline [of fl r s iid sid now qs fm, OF fl r id off])
  have rows: "interventions (db s') = map upd (interventions (db s))"
    by (simp add: s')
  have in': "upd r \<in> set (interventions (db s'))"
    using r by (simp add: rows)
  have props: "interventionId (upd r) = iid \<and> iv_studentId (upd r) = sid \<and>
      taskAssigned (upd r) = True \<and> completed (upd r) = False \<and>
      assignedTasks (upd r) = Some (remedial_tasks qs fm)"
    using id own nc by (simp add: upd_def)
  have nosend: "fst (sendToStudent sid (Intervention_assigned iid (remedial_tasks qs fm))
               (s\<lparr>db := db s'\<rparr>)) = False"
    using off by (simp add: sendToStudent_offline isConnected_db_update)
  have same: "outbox s' = outbox s \<and> timers s' = timers s \<and> connections s' = connections s"
    by (simp add: s')
  have ex: "\<exists>r' \<in> set (interventions (db s')).
            interventionId r' = iid \<and> iv_studentId r' = sid \<and> taskAssigned r' = True \<and>
            completed r' = False \<and> assignedTasks r' = Some (remedial_tasks qs fm)"
    using in' props by blast
  have pull: "bearer_token hdr = Some tok \<and> tok \<noteq> [] \<and> jv tok = Inr u \<and> \<not> fl' 0 \<longrightarrow>
           (\<exists>rows. get_pending_interventions jv fl' hdr sid s' =
                     Pending_interventions sid rows \<and>
              (\<exists>r' \<in> set rows.
                  interventionId r' = iid \<and> taskAssigned r' = True \<and> completed r' = False \<and>
                  assignedTasks r' = Some (remedial_tasks qs fm)) \<and>
              (\<forall>x \<in> set rows. iv_studentId x = sid \<and> taskAssigned x = True \<and>
                  completed x = False) \<and>
              sorted (rev (map createdAt rows)))"
  proof (intro impI, elim conjE)
    assume b: "bearer_token hdr = Some tok" and t: "tok \<noteq> []" and j: "jv tok = Inr u"
      and f: "\<not> fl' 0"
    let ?rows = "rev (sort_key createdAt (filter (pending_where sid) (interventions (db s'))))"
    have g: "get_pending_interventions jv fl' hdr sid s' = Pending_interventions sid ?rows"
      by (rule get_pending_ok [of hdr tok jv u fl' sid s', OF b t j f])
    have mem: "upd r \<in> set ?rows"
      using in' props by (simp add: pending_where_def)
    have all: "\<forall>x \<in> set ?rows. iv_studentId x = sid \<and> taskAssigned x = True \<and>
                  completed x = False"
      by (simp add: pending_where_def)
    have srt: "sorted (rev (map createdAt ?rows))"
      by (simp add: rev_map)
    from g mem props all srt
    show "\<exists>rows. get_pending_interventions jv fl' hdr sid s' =
                     Pending_interventions sid rows \<and>
              (\<exists>r' \<in> set rows.
                  interventionId r' = iid \<and> taskAssigned r' = True \<and> completed r' = False \<and>
                  assignedTasks r' = Some (remedial_tasks qs fm)) \<and>
              (\<forall>x \<in> set rows. iv_studentId x = sid \<and> taskAssigned x = True \<and>
                  completed x = False) \<and>
              sorted (rev (map createdAt rows))"
      by blast
  qed
  from nosend same ex pull
  show "let s' = approval_callback fl now sid iid qs fm s in
        fst (sendToStudent sid (Intervention_assigned iid (remedial_tasks qs fm))
               (s\<lparr>db := db s'\<rparr>)) = False \<and>
        outbox s' = outbox s \<and> timers s' = timers s \<and> connections s' = connections s \<and>
        (\<exists>r' \<in> set (interventions (db s')).
            interventionId r' = iid \<and> iv_studentId r' = sid \<and> taskAssigned r' = True \<and>
            completed r' = False \<and> assignedTasks r' = Some (remedial_tasks qs fm)) \<and>
        (bearer_token hdr = Some tok \<and> tok \<noteq> [] \<and> jv tok = Inr u \<and> \<not> fl' 0 \<longrightarrow>
           (\<exists>rows. get_pending_interventions jv fl' hdr sid s' =
                     Pending_interventions sid rows \<and>
              (\<exists>r' \<in> set rows.
                  interventionId r' = iid \<and> taskAssigned r' = True \<and> completed r' = False \<and>
                  assignedTasks r' = Some (remedial_tasks qs fm)) \<and>
              (\<forall>x \<in> set rows. iv_studentId x = sid \<and> taskAssigned x = True \<and>
                  completed x = False) \<and>
              sorted (rev (map createdAt rows))))"
    unfolding Let_def s'_def [symmetric] by blast
qed

lemma offline_state_eval:
  "offline_state =
     \<lparr>connections = Map.empty, readyState = (\<lambda>ws. CLOSED),
      studentIdVar = (\<lambda>ws. if ws = 2 then Some ''B'' else None),
      outbox = [(2, Connected ''B'' True), (2, Checkin_pending 1 1), (2, Checkin_pending 2 2)],
      db = \<lparr>dailyLogs =
              [\<lparr>logId = 1, log_studentId = ''B'', focusMinutes = 70, quizScore = 5,
                status = ''Pending Mentor Review'', timestamp = 3\<rparr>,
               \<lparr>logId = 2, log_studentId = ''B'', focusMinutes = 10, quizScore = 8,
                status = ''Pending Mentor Review'', timestamp = 4\<rparr>],
            interventions =
              [\<lparr>interventionId = 1, iv_studentId = ''B'', taskAssigned = False,
                assignedTasks = None, completed = False, createdAt = 3, updatedAt = 3\<rparr>,
               \<lparr>interventionId = 2, iv_studentId = ''B'', taskAssigned = False,
                assignedTasks = None, completed = False, createdAt = 4, updatedAt = 4\<rparr>],
            log_seq = 3, intervention_seq = 3\<rparr>,
      timers =
        [\<lparr>t_delay = 5000, t_studentId = ''B'', t_interventionId = 1, t_quizScore = 5,
          t_focusMinutes = 70\<rparr>,
         \<lparr>t_delay = 5000, t_studentId = ''B'', t_interventionId = 2, t_quizScore = 8,
          t_focusMinutes = 10\<rparr>]\<rparr>"
  by (simp add: offline_state_def on_close_def on_message_def on_connection_def
      connect_frame_def verifyToken_def example_jwt_def start_state_def addConnection_def
      removeConnection_def ws_send_def Let_def handleDailyCheckin_def checkin_payload_def
      isOnTrack_def checkin_status_def transaction_def checkin_tx_def dailyLog_create_def
      intervention_create_def no_faults_def SIMULATION_MODE_def simulateN8nApproval_def
      AUTO_APPROVE_DELAY_def fun_eq_iff)

text \<open>
  Both approvals of the student who disconnected fire; the pull then lists the two
  interventions, the later one first.
\<close>

theorem offline_assignment_kept_for_pull_witness:
  "outbox (fire_timer no_faults 9 (fire_timer no_faults 8 offline_state)) =
     outbox offline_state \<and>
   timers (fire_timer no_faults 9 (fire_timer no_faults 8 offline_state)) = [] \<and>
   get_pending_interventions example_jwt no_faults (Some ''Bearer tokB'') ''B''
       (fire_timer no_faults 9 (fire_timer no_faults 8 offline_state)) =
     Pending_interventions ''B''
       [\<lparr>interventionId = 2, iv_studentId = ''B'', taskAssigned = True,
         assignedTasks = Some focus_tasks, completed = False, createdAt = 4, updatedAt = 9\<rparr>,
        \<lparr>interventionId = 1, iv_studentId = ''B'', taskAssigned = True,
         assignedTasks = Some quiz_tasks, completed = False, createdAt = 3, updatedAt = 8\<rparr>]"
  using offline_assignment_kept_for_pull
     [where fl = no_faults and fl' = no_faults and jv = example_jwt and sid = "''B''"
        and iid = 2 and qs = 8 and fm = 10 and now = 9
        and hdr = "Some ''Bearer tokB''" and tok = "''tokB''" and u = "Some ''B''"
        and r = "\<lparr>interventionId = 2, iv_studentId = ''B'', taskAssigned = False,
                assignedTasks = None, completed = False, createdAt = 4, updatedAt = 4\<rparr>"
        and s = "(fire_timer no_faults 8 offline_state)\<lparr>timers := []\<rparr>"]
  by (simp add: offline_state_eval fire_timer_def approval_callback_def
      intervention_update_def sendToStudent_def remedial_tasks_def no_faults_def
      get_pending_interventions_def bearer_token_def example_jwt_def
      intervention_findMany_pending_def pending_where_def Let_def)

end
